theory Spec2Isabelle
  imports Main
begin

section \<open>The engine and its tokenizer\<close>

text \<open>
  From \<^verbatim>\<open>fast_tts/engine/base_engine.py\<close>. \<^verbatim>\<open>BaseEngine.__init__\<close> stores one attribute, \<^verbatim>\<open>self.generator\<close>; \<^verbatim>\<open>split_text\<close> reads
  \<^verbatim>\<open>self.generator.tokenizer.encode\<close>. The encoder is called with a text and the three
  keyword flags \<^verbatim>\<open>add_special_tokens\<close>, \<^verbatim>\<open>truncation\<close>, \<^verbatim>\<open>padding\<close> (in this order below)
  and returns a list of token ids.
\<close>

record tokenizer =
  encode :: "string \<Rightarrow> bool \<Rightarrow> bool \<Rightarrow> bool \<Rightarrow> int list"

record generator =
  tokenizer :: tokenizer

record BaseEngine =
  generator :: generator

text \<open>
  \<^verbatim>\<open>tokenize_fn = partial(self.generator.tokenizer.encode, add_special_tokens=False,
  truncation=False, padding=False)\<close>
\<close>

definition tokenize_fn :: "'a BaseEngine_scheme \<Rightarrow> string \<Rightarrow> int list" where
  "tokenize_fn self s = encode (tokenizer (generator self)) s False False False"

section \<open>The Segmenter\<close>

text \<open>
  Modelled from the spec: \<^verbatim>\<open>split_text\<close> is imported from \<^verbatim>\<open>.utils\<close>, which is not among
  the sources, and so is the built-in sentence boundary detector it falls back on when
  \<^verbatim>\<open>split_fn\<close> is \<^verbatim>\<open>None\<close>. The definitions of this section follow section 4.1 of the
  specification; the built-in detector is the parameter \<open>default_split\<close>.

  The token count of a piece of text is the number of tokens the tokenizing function
  returns for it (\<^verbatim>\<open>len\<close> of the list of ids). \<^verbatim>\<open>window_size\<close> and \<^verbatim>\<open>length_threshold\<close> are
  Python integers, of either sign.
\<close>

definition token_count :: "(string \<Rightarrow> int list) \<Rightarrow> string \<Rightarrow> int" where
  "token_count tok s = int (length (tok s))"

text \<open>
  Modelled from the spec: step 1, "split text into atomic sentence-like units using the
  splitting function", the custom one when it is given and the built-in one otherwise.
\<close>

definition sentence_units ::
  "(string \<Rightarrow> string list) \<Rightarrow> (string \<Rightarrow> string list) option \<Rightarrow> string \<Rightarrow> string list" where
  "sentence_units default_split split_fn txt =
     (case split_fn of None \<Rightarrow> default_split txt | Some f \<Rightarrow> f txt)"

text \<open>
  Modelled from the spec: closing the running chunk. A running chunk that holds no unit
  is not a chunk.
\<close>

definition close_chunk :: "string list \<Rightarrow> string list list \<Rightarrow> string list list" where
  "close_chunk cur rest = (if cur = [] then rest else cur # rest)"

text \<open>
  Modelled from the spec: steps 2 to 4. The running chunk \<open>cur\<close> is the list of the units
  accumulated so far. A unit joins the running chunk while the token count of the chunk
  stays within \<open>window_size\<close> (step 2); otherwise the running chunk is closed and the unit
  starts a new one (step 3), and a unit that alone exceeds \<open>window_size\<close> is a chunk of
  its own (step 4).
\<close>

fun accumulate ::
  "int \<Rightarrow> (string \<Rightarrow> int list) \<Rightarrow> string list \<Rightarrow> string list \<Rightarrow> string list list" where
  "accumulate window_size tok cur [] = close_chunk cur []"
| "accumulate window_size tok cur (u # us) =
     (if token_count tok (concat (cur @ [u])) \<le> window_size
        then accumulate window_size tok (cur @ [u]) us
      else if token_count tok u \<le> window_size
        then close_chunk cur (accumulate window_size tok [u] us)
      else close_chunk cur ([u] # accumulate window_size tok [] us))"

text \<open>
  Modelled from the spec: step 5, the merge pass. A chunk whose token count is below
  \<open>length_threshold\<close> is merged forward into the next chunk; the merged chunk is looked
  at again; the last chunk has no successor and is kept as it is.

  The specification does not settle whether a merge may produce a chunk of more than
  \<open>window_size\<close> tokens: step 5 states no such condition, while the invariant of its
  section 3 and its scenario of two sentences that do not fit one window allow a chunk
  above the window only when it is a single unit. The model does not choose: the condition
  is the parameter \<open>merge_ok\<close>, asked of the token count of the chunk a merge would
  produce, and a merge it refuses leaves the short chunk as it is.
\<close>

fun merge_pass ::
  "(int \<Rightarrow> bool) \<Rightarrow> int \<Rightarrow> (string \<Rightarrow> int list) \<Rightarrow> string list list \<Rightarrow>
   string list list" where
  "merge_pass merge_ok length_threshold tok [] = []"
| "merge_pass merge_ok length_threshold tok [c] = [c]"
| "merge_pass merge_ok length_threshold tok (c # d # cs) =
     (if token_count tok (concat c) < length_threshold \<and>
         merge_ok (token_count tok (concat (c @ d)))
        then merge_pass merge_ok length_threshold tok ((c @ d) # cs)
      else c # merge_pass merge_ok length_threshold tok (d # cs))"

text \<open>
  Modelled from the spec: the Segmenter, with the parameters in the order of the call in
  \<^verbatim>\<open>BaseEngine.split_text\<close>: \<^verbatim>\<open>split_text(text, window_size, tokenize_fn=..., split_fn=...,
  length_threshold=...)\<close>, after the two parts the sources and the specification leave open
  (the built-in splitter and the condition of a merge). The edge case "empty input, empty
  sequence" comes first; otherwise the units are accumulated and the chunks merged, and a
  chunk is the text of its units, one after the other.
\<close>

definition split_text ::
  "(string \<Rightarrow> string list) \<Rightarrow> (int \<Rightarrow> bool) \<Rightarrow> string \<Rightarrow> int \<Rightarrow> (string \<Rightarrow> int list) \<Rightarrow>
   (string \<Rightarrow> string list) option \<Rightarrow> int \<Rightarrow> string list" where
  "split_text default_split merge_ok txt window_size tok split_fn length_threshold =
     (if txt = [] then []
      else map concat
        (merge_pass merge_ok length_threshold tok
           (accumulate window_size tok [] (sentence_units default_split split_fn txt))))"

text \<open>
  \<^verbatim>\<open>BaseEngine.split_text(self, text, length_threshold=50, window_size=50, split_fn=None)\<close>,
  lines 72 to 90: it builds \<^verbatim>\<open>tokenize_fn\<close> and returns what the Segmenter returns.
\<close>

definition BaseEngine_split_text ::
  "(string \<Rightarrow> string list) \<Rightarrow> (int \<Rightarrow> bool) \<Rightarrow> 'a BaseEngine_scheme \<Rightarrow> string \<Rightarrow>
   int \<Rightarrow> int \<Rightarrow> (string \<Rightarrow> string list) option \<Rightarrow> string list" where
  "BaseEngine_split_text default_split merge_ok self txt length_threshold window_size split_fn =
     split_text default_split merge_ok txt window_size (tokenize_fn self) split_fn
       length_threshold"



section \<open>The generation entry points declared on BaseEngine\<close>

text \<open>
  The class body of \<^verbatim>\<open>BaseEngine\<close> as data: every method with its name, whether it carries
  \<^verbatim>\<open>@abstractmethod\<close>, its parameters after \<^verbatim>\<open>self\<close> or \<^verbatim>\<open>cls\<close> in the order of the signature, each
  with its default value when it has one, whether the signature ends with \<^verbatim>\<open>**kwargs\<close>, and
  its return annotation.

  A default value is a literal of the source. A float literal is kept as the decimal it
  is written as: \<open>PyFloat m e\<close> stands for \<open>m\<close> times ten to the minus \<open>e\<close>, so
  \<^verbatim>\<open>0.9\<close> is \<open>PyFloat 9 1\<close> and \<^verbatim>\<open>0.95\<close> is \<open>PyFloat 95 2\<close>.
\<close>

datatype pyval = PyNone | PyInt int | PyFloat int nat | PyStr string

datatype annotation = Ndarray | AsyncIterator_ndarray | Other_annotation

record method_decl =
  method_name :: string
  abstractmethod :: bool
  params :: "(string \<times> pyval option) list"
  var_keyword :: bool
  returns :: annotation

definition init_decl :: method_decl where
  "init_decl = \<lparr>method_name = ''__init__'', abstractmethod = False,
     params = [(''llm_model_path'', None), (''max_length'', Some (PyInt 32768)),
       (''llm_device'', Some (PyStr ''auto'')), (''backend'', Some (PyStr ''torch'')),
       (''llm_attn_implementation'', Some PyNone), (''torch_dtype'', Some (PyStr ''auto'')),
       (''llm_gpu_memory_utilization'', Some (PyFloat 6 1)),
       (''cache_implementation'', Some PyNone), (''batch_size'', Some (PyInt 32)),
       (''seed'', Some (PyInt 0)), (''stop_tokens'', Some PyNone),
       (''stop_token_ids'', Some PyNone)],
     var_keyword = True, returns = Other_annotation\<rparr>"

definition set_seed_decl :: method_decl where
  "set_seed_decl = \<lparr>method_name = ''set_seed'', abstractmethod = False,
     params = [(''seed'', None)], var_keyword = False, returns = Other_annotation\<rparr>"

definition auto_detect_device_decl :: method_decl where
  "auto_detect_device_decl = \<lparr>method_name = ''_auto_detect_device'', abstractmethod = False,
     params = [(''device'', None)], var_keyword = False, returns = Other_annotation\<rparr>"

definition write_audio_decl :: method_decl where
  "write_audio_decl = \<lparr>method_name = ''write_audio'', abstractmethod = False,
     params = [(''audio'', None), (''filepath'', None)], var_keyword = False,
     returns = Other_annotation\<rparr>"

definition split_text_decl :: method_decl where
  "split_text_decl = \<lparr>method_name = ''split_text'', abstractmethod = False,
     params = [(''text'', None), (''length_threshold'', Some (PyInt 50)),
       (''window_size'', Some (PyInt 50)), (''split_fn'', Some PyNone)],
     var_keyword = False, returns = Other_annotation\<rparr>"

definition speak_async_decl :: method_decl where
  "speak_async_decl = \<lparr>method_name = ''speak_async'', abstractmethod = True,
     params = [(''name'', None), (''text'', None),
       (''temperature'', Some (PyFloat 9 1)), (''top_k'', Some (PyInt 50)),
       (''top_p'', Some (PyFloat 95 2)), (''max_tokens'', Some (PyInt 4096)),
       (''length_threshold'', Some (PyInt 50)), (''window_size'', Some (PyInt 50)),
       (''split_fn'', Some PyNone)],
     var_keyword = True, returns = Ndarray\<rparr>"

definition speak_stream_async_decl :: method_decl where
  "speak_stream_async_decl = \<lparr>method_name = ''speak_stream_async'', abstractmethod = True,
     params = [(''name'', None), (''text'', None),
       (''temperature'', Some (PyFloat 9 1)), (''top_k'', Some (PyInt 50)),
       (''top_p'', Some (PyFloat 95 2)), (''max_tokens'', Some (PyInt 4096)),
       (''length_threshold'', Some (PyInt 50)), (''window_size'', Some (PyInt 50)),
       (''split_fn'', Some PyNone)],
     var_keyword = True, returns = AsyncIterator_ndarray\<rparr>"

definition clone_voice_async_decl :: method_decl where
  "clone_voice_async_decl = \<lparr>method_name = ''clone_voice_async'', abstractmethod = True,
     params = [(''text'', None), (''reference_audio'', None), (''reference_text'', Some PyNone),
       (''temperature'', Some (PyFloat 9 1)), (''top_k'', Some (PyInt 50)),
       (''top_p'', Some (PyFloat 95 2)), (''max_tokens'', Some (PyInt 4096)),
       (''length_threshold'', Some (PyInt 50)), (''window_size'', Some (PyInt 50)),
       (''split_fn'', Some PyNone)],
     var_keyword = True, returns = Ndarray\<rparr>"

definition clone_voice_stream_async_decl :: method_decl where
  "clone_voice_stream_async_decl = \<lparr>method_name = ''clone_voice_stream_async'',
     abstractmethod = True,
     params = [(''text'', None), (''reference_audio'', None), (''reference_text'', Some PyNone),
       (''temperature'', Some (PyFloat 9 1)), (''top_k'', Some (PyInt 50)),
       (''top_p'', Some (PyFloat 95 2)), (''max_tokens'', Some (PyInt 4096)),
       (''length_threshold'', Some (PyInt 50)), (''window_size'', Some (PyInt 50)),
       (''split_fn'', Some PyNone)],
     var_keyword = True, returns = AsyncIterator_ndarray\<rparr>"

definition generate_voice_async_decl :: method_decl where
  "generate_voice_async_decl = \<lparr>method_name = ''generate_voice_async'', abstractmethod = True,
     params = [(''text'', None), (''gender'', Some (PyStr ''female'')),
       (''pitch'', Some (PyStr ''moderate'')), (''speed'', Some (PyStr ''moderate'')),
       (''temperature'', Some (PyFloat 9 1)), (''top_k'', Some (PyInt 50)),
       (''top_p'', Some (PyFloat 95 2)), (''max_tokens'', Some (PyInt 4096)),
       (''length_threshold'', Some (PyInt 50)), (''window_size'', Some (PyInt 50)),
       (''split_fn'', Some PyNone)],
     var_keyword = True, returns = Ndarray\<rparr>"

definition generate_voice_stream_async_decl :: method_decl where
  "generate_voice_stream_async_decl = \<lparr>method_name = ''generate_voice_stream_async'',
     abstractmethod = True,
     params = [(''text'', None), (''gender'', Some (PyStr ''female'')),
       (''pitch'', Some (PyStr ''moderate'')), (''speed'', Some (PyStr ''moderate'')),
       (''temperature'', Some (PyFloat 9 1)), (''top_k'', Some (PyInt 50)),
       (''top_p'', Some (PyFloat 95 2)), (''max_tokens'', Some (PyInt 4096)),
       (''length_threshold'', Some (PyInt 50)), (''window_size'', Some (PyInt 50)),
       (''split_fn'', Some PyNone)],
     var_keyword = True, returns = AsyncIterator_ndarray\<rparr>"

text \<open>The methods in the order of the class body.\<close>

definition BaseEngine_methods :: "method_decl list" where
  "BaseEngine_methods = [init_decl, set_seed_decl, auto_detect_device_decl, write_audio_decl,
     split_text_decl, speak_async_decl, speak_stream_async_decl, clone_voice_async_decl,
     clone_voice_stream_async_decl, generate_voice_async_decl,
     generate_voice_stream_async_decl]"

text \<open>
  The generation entry points are the abstract methods: the ones every engine has to
  provide. An entry point is the batch form of its operation when it returns
  \<^verbatim>\<open>np.ndarray\<close> and the streaming form when it returns \<^verbatim>\<open>AsyncIterator[np.ndarray]\<close>; its
  operation family is its name without the ending \<^verbatim>\<open>_stream_async\<close> or \<^verbatim>\<open>_async\<close>.
\<close>

definition entry_points :: "method_decl list" where
  "entry_points = filter abstractmethod BaseEngine_methods"

datatype form = Batch | Streaming | No_audio

definition form_of :: "method_decl \<Rightarrow> form" where
  "form_of m = (case returns m of Ndarray \<Rightarrow> Batch | AsyncIterator_ndarray \<Rightarrow> Streaming
                | Other_annotation \<Rightarrow> No_audio)"

definition ends_with :: "string \<Rightarrow> string \<Rightarrow> bool" where
  "ends_with suf s = (length suf \<le> length s \<and> drop (length s - length suf) s = suf)"

definition family :: "method_decl \<Rightarrow> string" where
  "family m =
     (let n = method_name m in
      if ends_with ''_stream_async'' n then take (length n - length ''_stream_async'') n
      else if ends_with ''_async'' n then take (length n - length ''_async'') n
      else n)"

text \<open>
  Python's binding of a call made with keyword arguments \<open>kw\<close> (name and value, in the
  order of the call) to a signature: a parameter takes the value passed for it, else its
  default, and a parameter with neither raises \<^verbatim>\<open>TypeError\<close>. Keywords that name no
  parameter are collected by \<^verbatim>\<open>**kwargs\<close> when the signature has it and raise
  \<^verbatim>\<open>TypeError\<close> otherwise (before a missing argument is looked for). The result is the
  value of every parameter, in the order of the signature, and the collected keywords.
\<close>

datatype call_error = TypeError string

fun bind_params ::
  "(string \<times> pyval option) list \<Rightarrow> (string \<times> pyval) list \<Rightarrow>
   call_error + (string \<times> pyval) list" where
  "bind_params [] kw = Inr []"
| "bind_params ((n, dflt) # ps) kw =
     (case (case map_of kw n of Some v \<Rightarrow> Some v | None \<Rightarrow> dflt) of
        None \<Rightarrow> Inl (TypeError n)
      | Some v \<Rightarrow>
          (case bind_params ps kw of Inl e \<Rightarrow> Inl e | Inr env \<Rightarrow> Inr ((n, v) # env)))"

definition bind_call ::
  "method_decl \<Rightarrow> (string \<times> pyval) list \<Rightarrow>
   call_error + ((string \<times> pyval) list \<times> (string \<times> pyval) list)" where
  "bind_call m kw =
     (let extra = filter (\<lambda>(k, v). k \<notin> set (map fst (params m))) kw in
      if \<not> var_keyword m \<and> extra \<noteq> [] then Inl (TypeError (fst (hd extra)))
      else (case bind_params (params m) kw of
              Inl e \<Rightarrow> Inl e
            | Inr env \<Rightarrow> Inr (env, extra)))"

section \<open>Batch and streaming generation over the chunks\<close>

text \<open>
  Modelled from the spec: the six entry points are abstract in \<^verbatim>\<open>BaseEngine\<close> (their bodies
  are \<^verbatim>\<open>...\<close> and \<^verbatim>\<open>yield\<close>); the engines that implement them and the backend they drive are
  not among the sources. The definitions of this section follow sections 3, 4.2 and 6 of
  the specification.

  A waveform and an audio frame are arrays of samples. The voice context of a request is
  a named voice, a reference audio sample with an optional transcript, or a description by
  gender, pitch and speed. A generation request is a chunk with the voice context and the
  sampling parameters; the type of the two float parameters is left open.
\<close>

type_synonym waveform = "int list"

datatype gender = Female | Male

datatype level = Very_low | Low | Moderate | High | Very_high

datatype voice_context =
    Named_voice string
  | Cloned_voice string "string option"
  | Described_voice "gender option" "level option" "level option"

record 'f request =
  req_text :: string
  req_voice :: voice_context
  req_temperature :: 'f
  req_top_k :: int
  req_top_p :: 'f
  req_max_tokens :: int

datatype backend_error = Backend_failure string

text \<open>
  Modelled from the spec: "Generation Requests are constructed per-chunk inside the
  orchestration loop", one request for every chunk, in the order of the chunks.
\<close>

definition chunk_requests ::
  "voice_context \<Rightarrow> 'f \<Rightarrow> int \<Rightarrow> 'f \<Rightarrow> int \<Rightarrow> string list \<Rightarrow> 'f request list" where
  "chunk_requests voice temperature top_k top_p max_tokens chunks =
     map (\<lambda>c. \<lparr>req_text = c, req_voice = voice, req_temperature = temperature,
               req_top_k = top_k, req_top_p = top_p, req_max_tokens = max_tokens\<rparr>) chunks"

text \<open>
  Modelled from the spec: the batch variant "invokes the underlying per-chunk generation
  for each chunk in order, and concatenates resulting waveforms into one array; returns
  only after all chunks complete", and "if the backend fails on any chunk the whole
  operation fails, no partial waveform is silently returned". The backend answers a
  request with a waveform or an error. The loop keeps the waveforms generated so far in
  \<open>audios\<close> and the requests handed to the backend so far in \<open>calls\<close>; its result is the
  requests made, in the order they were made, and the outcome.
\<close>

fun batch_loop ::
  "('r \<Rightarrow> backend_error + waveform) \<Rightarrow> 'r list \<Rightarrow> 'r list \<Rightarrow> waveform list \<Rightarrow>
   'r list \<times> (backend_error + waveform)" where
  "batch_loop backend [] calls audios = (calls, Inr (concat audios))"
| "batch_loop backend (r # rs) calls audios =
     (case backend r of
        Inl e \<Rightarrow> (calls @ [r], Inl e)
      | Inr w \<Rightarrow> batch_loop backend rs (calls @ [r]) (audios @ [w]))"

text \<open>
  Modelled from the spec: a batch entry point "internally segments the text" with
  \<^verbatim>\<open>split_text\<close> and the chunking parameters it was given, and runs the loop over the
  chunks.
\<close>

definition generate_batch ::
  "('f request \<Rightarrow> backend_error + waveform) \<Rightarrow> (string \<Rightarrow> string list) \<Rightarrow>
   (int \<Rightarrow> bool) \<Rightarrow> 'a BaseEngine_scheme \<Rightarrow> voice_context \<Rightarrow> string \<Rightarrow> 'f \<Rightarrow> int \<Rightarrow> 'f \<Rightarrow> int \<Rightarrow> int \<Rightarrow> int \<Rightarrow>
   (string \<Rightarrow> string list) option \<Rightarrow> 'f request list \<times> (backend_error + waveform)" where
  "generate_batch backend default_split merge_ok self voice txt temperature top_k top_p max_tokens
     length_threshold window_size split_fn =
     batch_loop backend
       (chunk_requests voice temperature top_k top_p max_tokens
          (BaseEngine_split_text default_split merge_ok self txt length_threshold window_size split_fn))
       [] []"

text \<open>
  Modelled from the spec: the three batch entry points, with the parameters of their
  signatures in \<^verbatim>\<open>BaseEngine\<close>. Direct speak generates in a named voice, voice clone from
  a reference audio sample and its optional transcript, attribute-based generation from
  gender, pitch and speed.
\<close>

definition speak_async ::
  "('f request \<Rightarrow> backend_error + waveform) \<Rightarrow> (string \<Rightarrow> string list) \<Rightarrow>
   (int \<Rightarrow> bool) \<Rightarrow> 'a BaseEngine_scheme \<Rightarrow> string \<Rightarrow> string \<Rightarrow> 'f \<Rightarrow> int \<Rightarrow> 'f \<Rightarrow> int \<Rightarrow> int \<Rightarrow> int \<Rightarrow>
   (string \<Rightarrow> string list) option \<Rightarrow> 'f request list \<times> (backend_error + waveform)" where
  "speak_async backend default_split merge_ok self name txt temperature top_k top_p max_tokens
     length_threshold window_size split_fn =
     generate_batch backend default_split merge_ok self (Named_voice name) txt temperature top_k top_p
       max_tokens length_threshold window_size split_fn"

definition clone_voice_async ::
  "('f request \<Rightarrow> backend_error + waveform) \<Rightarrow> (string \<Rightarrow> string list) \<Rightarrow>
   (int \<Rightarrow> bool) \<Rightarrow> 'a BaseEngine_scheme \<Rightarrow> string \<Rightarrow> string \<Rightarrow> string option \<Rightarrow> 'f \<Rightarrow> int \<Rightarrow> 'f \<Rightarrow> int \<Rightarrow>
   int \<Rightarrow> int \<Rightarrow> (string \<Rightarrow> string list) option \<Rightarrow>
   'f request list \<times> (backend_error + waveform)" where
  "clone_voice_async backend default_split merge_ok self txt reference_audio reference_text temperature
     top_k top_p max_tokens length_threshold window_size split_fn =
     generate_batch backend default_split merge_ok self (Cloned_voice reference_audio reference_text) txt
       temperature top_k top_p max_tokens length_threshold window_size split_fn"

definition generate_voice_async ::
  "('f request \<Rightarrow> backend_error + waveform) \<Rightarrow> (string \<Rightarrow> string list) \<Rightarrow>
   (int \<Rightarrow> bool) \<Rightarrow> 'a BaseEngine_scheme \<Rightarrow> string \<Rightarrow> gender option \<Rightarrow> level option \<Rightarrow> level option \<Rightarrow>
   'f \<Rightarrow> int \<Rightarrow> 'f \<Rightarrow> int \<Rightarrow> int \<Rightarrow> int \<Rightarrow> (string \<Rightarrow> string list) option \<Rightarrow>
   'f request list \<times> (backend_error + waveform)" where
  "generate_voice_async backend default_split merge_ok self txt gender pitch speed temperature
     top_k top_p max_tokens length_threshold window_size split_fn =
     generate_batch backend default_split merge_ok self (Described_voice gender pitch speed) txt
       temperature top_k top_p max_tokens length_threshold window_size split_fn"

text \<open>
  Modelled from the spec: the streaming variant "segments the text, then for each chunk
  in order, lazily produces audio frames as soon as they are available from the backend,
  forwarding each frame to the caller", and on a backend failure "frames already emitted
  stand, but the stream terminates with an error signal". The streaming backend answers a
  request with the frames it produces, in generation order, and the error that ended
  them, if any. What the caller receives is the list of emitted frames in emission order,
  each tagged with the index of its chunk and its index within the chunk, and the signal
  that ends the stream (\<open>None\<close> for a normal end).
\<close>

definition tag_frames :: "nat \<Rightarrow> waveform list \<Rightarrow> (nat \<times> nat \<times> waveform) list" where
  "tag_frames i frames = map (\<lambda>(j, f). (i, j, f)) (enumerate 0 frames)"

fun stream_loop ::
  "('r \<Rightarrow> waveform list \<times> backend_error option) \<Rightarrow> nat \<Rightarrow> 'r list \<Rightarrow>
   (nat \<times> nat \<times> waveform) list \<times> backend_error option" where
  "stream_loop backend i [] = ([], None)"
| "stream_loop backend i (r # rs) =
     (case backend r of
        (frames, Some e) \<Rightarrow> (tag_frames i frames, Some e)
      | (frames, None) \<Rightarrow>
          (case stream_loop backend (Suc i) rs of
             (later, signal) \<Rightarrow> (tag_frames i frames @ later, signal)))"

definition generate_stream ::
  "('f request \<Rightarrow> waveform list \<times> backend_error option) \<Rightarrow> (string \<Rightarrow> string list) \<Rightarrow>
   (int \<Rightarrow> bool) \<Rightarrow> 'a BaseEngine_scheme \<Rightarrow> voice_context \<Rightarrow> string \<Rightarrow> 'f \<Rightarrow> int \<Rightarrow> 'f \<Rightarrow> int \<Rightarrow> int \<Rightarrow> int \<Rightarrow>
   (string \<Rightarrow> string list) option \<Rightarrow> (nat \<times> nat \<times> waveform) list \<times> backend_error option" where
  "generate_stream backend default_split merge_ok self voice txt temperature top_k top_p max_tokens
     length_threshold window_size split_fn =
     stream_loop backend 0
       (chunk_requests voice temperature top_k top_p max_tokens
          (BaseEngine_split_text default_split merge_ok self txt length_threshold window_size split_fn))"

text \<open>Modelled from the spec: the three streaming entry points.\<close>

definition speak_stream_async ::
  "('f request \<Rightarrow> waveform list \<times> backend_error option) \<Rightarrow> (string \<Rightarrow> string list) \<Rightarrow>
   (int \<Rightarrow> bool) \<Rightarrow> 'a BaseEngine_scheme \<Rightarrow> string \<Rightarrow> string \<Rightarrow> 'f \<Rightarrow> int \<Rightarrow> 'f \<Rightarrow> int \<Rightarrow> int \<Rightarrow> int \<Rightarrow>
   (string \<Rightarrow> string list) option \<Rightarrow> (nat \<times> nat \<times> waveform) list \<times> backend_error option" where
  "speak_stream_async backend default_split merge_ok self name txt temperature top_k top_p max_tokens
     length_threshold window_size split_fn =
     generate_stream backend default_split merge_ok self (Named_voice name) txt temperature top_k top_p
       max_tokens length_threshold window_size split_fn"

definition clone_voice_stream_async ::
  "('f request \<Rightarrow> waveform list \<times> backend_error option) \<Rightarrow> (string \<Rightarrow> string list) \<Rightarrow>
   (int \<Rightarrow> bool) \<Rightarrow> 'a BaseEngine_scheme \<Rightarrow> string \<Rightarrow> string \<Rightarrow> string option \<Rightarrow> 'f \<Rightarrow> int \<Rightarrow> 'f \<Rightarrow> int \<Rightarrow>
   int \<Rightarrow> int \<Rightarrow> (string \<Rightarrow> string list) option \<Rightarrow>
   (nat \<times> nat \<times> waveform) list \<times> backend_error option" where
  "clone_voice_stream_async backend default_split merge_ok self txt reference_audio reference_text
     temperature top_k top_p max_tokens length_threshold window_size split_fn =
     generate_stream backend default_split merge_ok self (Cloned_voice reference_audio reference_text) txt
       temperature top_k top_p max_tokens length_threshold window_size split_fn"

definition generate_voice_stream_async ::
  "('f request \<Rightarrow> waveform list \<times> backend_error option) \<Rightarrow> (string \<Rightarrow> string list) \<Rightarrow>
   (int \<Rightarrow> bool) \<Rightarrow> 'a BaseEngine_scheme \<Rightarrow> string \<Rightarrow> gender option \<Rightarrow> level option \<Rightarrow> level option \<Rightarrow>
   'f \<Rightarrow> int \<Rightarrow> 'f \<Rightarrow> int \<Rightarrow> int \<Rightarrow> int \<Rightarrow> (string \<Rightarrow> string list) option \<Rightarrow>
   (nat \<times> nat \<times> waveform) list \<times> backend_error option" where
  "generate_voice_stream_async backend default_split merge_ok self txt gender pitch speed temperature
     top_k top_p max_tokens length_threshold window_size split_fn =
     generate_stream backend default_split merge_ok self (Described_voice gender pitch speed) txt
       temperature top_k top_p max_tokens length_threshold window_size split_fn"

text \<open>
  The order of the tags, chunk index first and frame index second: strictly before, and
  not after.
\<close>

definition tag_before :: "nat \<times> nat \<times> waveform \<Rightarrow> nat \<times> nat \<times> waveform \<Rightarrow> bool" where
  "tag_before a b = (fst a < fst b \<or> (fst a = fst b \<and> fst (snd a) < fst (snd b)))"

definition tag_not_after :: "nat \<times> nat \<times> waveform \<Rightarrow> nat \<times> nat \<times> waveform \<Rightarrow> bool" where
  "tag_not_after a b = (fst a < fst b \<or> (fst a = fst b \<and> fst (snd a) \<le> fst (snd b)))"

section \<open>Concrete engines, splitters and backends, for evaluating the definitions\<close>

text \<open>
  A character-level encoder: one token id per character, a leading id 1 when special
  tokens are asked for, cut to four ids under truncation and filled with 0 up to four ids
  under padding.
\<close>

definition char_encode :: "string \<Rightarrow> bool \<Rightarrow> bool \<Rightarrow> bool \<Rightarrow> int list" where
  "char_encode s add_special_tokens truncation padding =
     (let ids = (if add_special_tokens then [1] else []) @ map (\<lambda>c. int (of_char c)) s;
          cut = (if truncation then take 4 ids else ids)
      in if padding then cut @ replicate (4 - length cut) 0 else cut)"

definition char_engine :: BaseEngine where
  "char_engine = \<lparr>generator = \<lparr>tokenizer = \<lparr>encode = char_encode\<rparr>\<rparr>\<rparr>"

text \<open>A splitter that ends a unit after every full stop.\<close>

fun split_after_stop :: "string \<Rightarrow> string \<Rightarrow> string list" where
  "split_after_stop acc [] = (if acc = [] then [] else [acc])"
| "split_after_stop acc (c # cs) =
     (if c = CHR ''.'' then (acc @ [c]) # split_after_stop [] cs
      else split_after_stop (acc @ [c]) cs)"

definition stop_splitter :: "string \<Rightarrow> string list" where
  "stop_splitter txt = split_after_stop [] txt"

text \<open>
  A splitter that drops text: it keeps the first unit of \<open>stop_splitter\<close> only.
\<close>

definition first_unit_only :: "string \<Rightarrow> string list" where
  "first_unit_only txt = take 1 (stop_splitter txt)"

text \<open>A condition for the merge pass: the merged chunk fits the window.\<close>

definition fits_window :: "int \<Rightarrow> int \<Rightarrow> bool" where
  "fits_window window_size n = (n \<le> window_size)"

text \<open>
  A second encoder: it returns the id 0 for every character, so it agrees with
  \<open>char_encode\<close> on the number of tokens only.
\<close>

definition zero_encode :: "string \<Rightarrow> bool \<Rightarrow> bool \<Rightarrow> bool \<Rightarrow> int list" where
  "zero_encode s add_special_tokens truncation padding = map (\<lambda>c. 0) s"

definition zero_engine :: BaseEngine where
  "zero_engine = \<lparr>generator = \<lparr>tokenizer = \<lparr>encode = zero_encode\<rparr>\<rparr>\<rparr>"

text \<open>
  A batch backend that generates one sample for every character of the chunk, and a
  streaming backend that produces one frame of one sample for every character.
\<close>

definition sample_backend :: "pyval request \<Rightarrow> backend_error + waveform" where
  "sample_backend r = Inr (map (\<lambda>c. int (of_char c)) (req_text r))"

definition frame_backend :: "pyval request \<Rightarrow> waveform list \<times> backend_error option" where
  "frame_backend r = (map (\<lambda>c. [int (of_char c)]) (req_text r), None)"

section \<open>Properties of the Segmenter\<close>






lemma close_chunk_mem:
  "g \<in> set (close_chunk cur rest) \<longleftrightarrow> (cur \<noteq> [] \<and> g = cur) \<or> g \<in> set rest"
  by (auto simp: close_chunk_def)

text \<open>
  Greedy accumulation: while the running chunk is empty or within the window, every chunk
  that comes out is within the window or is one unit that alone exceeds it.
\<close>

lemma accumulate_budget:
  "cur = [] \<or> token_count tok (concat cur) \<le> W \<Longrightarrow> g \<in> set (accumulate W tok cur us) \<Longrightarrow>
   token_count tok (concat g) \<le> W \<or> (\<exists>u \<in> set us. g = [u] \<and> W < token_count tok u)"
proof (induction us arbitrary: cur)
  case Nil
  then show ?case by (auto simp: close_chunk_mem)
next
  case (Cons u us)
  show ?case
  proof (cases "token_count tok (concat (cur @ [u])) \<le> W")
    case True
    with Cons.prems(2) have "g \<in> set (accumulate W tok (cur @ [u]) us)" by simp
    with Cons.IH[of "cur @ [u]"] True show ?thesis by auto
  next
    case over: False
    show ?thesis
    proof (cases "token_count tok u \<le> W")
      case True
      with over Cons.prems(2)
      have "(cur \<noteq> [] \<and> g = cur) \<or> g \<in> set (accumulate W tok [u] us)"
        by (simp add: close_chunk_mem)
      with Cons.IH[of "[u]"] True Cons.prems(1) show ?thesis by auto
    next
      case False
      with over Cons.prems(2)
      have "(cur \<noteq> [] \<and> g = cur) \<or> g = [u] \<or> g \<in> set (accumulate W tok [] us)"
        by (simp add: close_chunk_mem)
      with Cons.IH[of "[]"] False Cons.prems(1) show ?thesis by auto
    qed
  qed
qed

text \<open>
  The merge pass: a chunk that comes out is a chunk that went in or a merged chunk the
  condition accepted.
\<close>

lemma merge_pass_origin:
  "x \<in> set (merge_pass mok T tok cs) \<Longrightarrow>
   x \<in> set cs \<or> mok (token_count tok (concat x))"
proof (induction mok T tok cs rule: merge_pass.induct)
  case (3 mok T tok c d cs)
  show ?case
  proof (cases "token_count tok (concat c) < T \<and> mok (token_count tok (concat (c @ d)))")
    case True
    with "3.prems" have "x \<in> set (merge_pass mok T tok ((c @ d) # cs))" by simp
    with "3.IH"(1)[OF True]
    have "x = c @ d \<or> x \<in> set cs \<or> mok (token_count tok (concat x))" by auto
    with True show ?thesis by auto
  next
    case False
    with "3.prems" have "x = c \<or> x \<in> set (merge_pass mok T tok (d # cs))" by auto
    with "3.IH"(2)[OF False] show ?thesis by auto
  qed
qed simp_all

lemma merge_pass_Nil_iff: "merge_pass mok T tok cs = [] \<longleftrightarrow> cs = []"
  by (induction mok T tok cs rule: merge_pass.induct) simp_all

lemma merge_pass_threshold:
  "(\<And>n. mok n) \<Longrightarrow> x \<in> set (butlast (merge_pass mok T tok cs)) \<Longrightarrow>
   T \<le> token_count tok (concat x)"
proof (induction mok T tok cs rule: merge_pass.induct)
  case (3 mok T tok c d cs)
  show ?case
  proof (cases "token_count tok (concat c) < T")
    case True
    with "3.prems"(1) have merge: "token_count tok (concat c) < T \<and>
        mok (token_count tok (concat (c @ d)))"
      by simp
    with "3.prems"(2) have "x \<in> set (butlast (merge_pass mok T tok ((c @ d) # cs)))"
      by simp
    then show ?thesis by (rule "3.IH"(1)[OF merge "3.prems"(1)])
  next
    case False
    then have keep: "\<not> (token_count tok (concat c) < T \<and>
        mok (token_count tok (concat (c @ d))))"
      by simp
    have "merge_pass mok T tok (d # cs) \<noteq> []" by (simp add: merge_pass_Nil_iff)
    with False "3.prems"(2)
    have "x = c \<or> x \<in> set (butlast (merge_pass mok T tok (d # cs)))" by simp
    then show ?thesis
    proof
      assume "x = c"
      with False show ?thesis by simp
    next
      assume "x \<in> set (butlast (merge_pass mok T tok (d # cs)))"
      then show ?thesis by (rule "3.IH"(2)[OF keep "3.prems"(1)])
    qed
  qed
qed simp_all

text \<open>
  What the two readings of the merge pass give. When the condition accepts only merged
  chunks that fit the window, every chunk is within the window or is a single unit that
  alone exceeds it; when it accepts every merge, every chunk but the last reaches the
  length threshold.
\<close>

lemma window_bound_when_merges_fit:
  assumes fit: "\<And>n. mok n \<Longrightarrow> n \<le> W"
    and c: "c \<in> set (split_text dflt mok txt W tok sf T)"
  shows "token_count tok c \<le> W \<or>
         (c \<in> set (sentence_units dflt sf txt) \<and> W < token_count tok c)"
proof -
  let ?us = "sentence_units dflt sf txt"
  let ?gs = "accumulate W tok [] ?us"
  from c obtain x where x: "x \<in> set (merge_pass mok T tok ?gs)" and cx: "c = concat x"
    by (auto simp: split_text_def split: if_splits)
  from merge_pass_origin[OF x] show ?thesis
  proof
    assume "x \<in> set ?gs"
    with accumulate_budget[of "[]" tok W x ?us] cx show ?thesis by auto
  next
    assume "mok (token_count tok (concat x))"
    with fit cx show ?thesis by simp
  qed
qed

lemma threshold_bound_when_merges_unconditional:
  assumes "\<And>n. mok n"
    and "c \<in> set (butlast (split_text dflt mok txt W tok sf T))"
  shows "T \<le> token_count tok c"
proof -
  from assms(2) obtain x
    where "x \<in> set (butlast (merge_pass mok T tok
             (accumulate W tok [] (sentence_units dflt sf txt))))"
      and "c = concat x"
    by (auto simp: split_text_def map_butlast[symmetric] split: if_splits)
  with merge_pass_threshold[OF assms(1)] show ?thesis by simp
qed

text \<open>The Segmenter reads the tokenizing function through the token counts only.\<close>

lemma accumulate_counts_only:
  "(\<And>s. token_count tok s = token_count tok' s) \<Longrightarrow>
   accumulate W tok cur us = accumulate W tok' cur us"
  by (induction us arbitrary: cur) simp_all

lemma merge_pass_counts_only:
  "(\<And>s. token_count tok s = token_count tok' s) \<Longrightarrow>
   merge_pass mok T tok cs = merge_pass mok T tok' cs"
  by (induction mok T tok cs rule: merge_pass.induct) simp_all

lemma split_text_counts_only:
  assumes "\<And>s. token_count tok s = token_count tok' s"
  shows "split_text dflt mok txt W tok sf T = split_text dflt mok txt W tok' sf T"
  unfolding split_text_def
  using accumulate_counts_only[OF assms] merge_pass_counts_only[OF assms] by simp

section \<open>Properties of the declared entry points\<close>

lemmas decl_defs = speak_async_decl_def speak_stream_async_decl_def
  clone_voice_async_decl_def clone_voice_stream_async_decl_def generate_voice_async_decl_def
  generate_voice_stream_async_decl_def init_decl_def set_seed_decl_def
  auto_detect_device_decl_def write_audio_decl_def split_text_decl_def

lemma entry_points_eq:
  "entry_points =
     [speak_async_decl, speak_stream_async_decl, clone_voice_async_decl,
      clone_voice_stream_async_decl, generate_voice_async_decl,
      generate_voice_stream_async_decl]"
  by (simp add: entry_points_def BaseEngine_methods_def decl_defs)

lemma family_values:
  "family speak_async_decl = ''speak''"
  "family speak_stream_async_decl = ''speak''"
  "family clone_voice_async_decl = ''clone_voice''"
  "family clone_voice_stream_async_decl = ''clone_voice''"
  "family generate_voice_async_decl = ''generate_voice''"
  "family generate_voice_stream_async_decl = ''generate_voice''"
  by (simp_all add: decl_defs family_def ends_with_def)

lemma form_values:
  "form_of speak_async_decl = Batch"
  "form_of speak_stream_async_decl = Streaming"
  "form_of clone_voice_async_decl = Batch"
  "form_of clone_voice_stream_async_decl = Streaming"
  "form_of generate_voice_async_decl = Batch"
  "form_of generate_voice_stream_async_decl = Streaming"
  by (simp_all add: decl_defs form_of_def)

lemma families:
  "map family entry_points =
     [''speak'', ''speak'', ''clone_voice'', ''clone_voice'', ''generate_voice'',
      ''generate_voice'']"
  by (simp add: entry_points_eq family_values)

lemma bind_params_other:
  "p \<notin> fst ` set ps \<Longrightarrow> bind_params ps ((p, d) # kw) = bind_params ps kw"
proof (induction ps)
  case Nil
  then show ?case by simp
next
  case (Cons a ps)
  then show ?case by (cases a) (auto split: option.splits)
qed

lemma bind_params_default:
  "distinct (map fst ps) \<Longrightarrow> (p, Some d) \<in> set ps \<Longrightarrow> map_of kw p = None \<Longrightarrow>
   bind_params ps ((p, d) # kw) = bind_params ps kw"
proof (induction ps)
  case Nil
  then show ?case by simp
next
  case (Cons a ps)
  obtain n dflt where a: "a = (n, dflt)" by (cases a)
  show ?case
  proof (cases "n = p")
    case True
    with Cons.prems a have d: "dflt = Some d" and notin: "p \<notin> fst ` set ps"
      by (auto simp: rev_image_eqI)
    from bind_params_other[OF notin] True a d Cons.prems(3) show ?thesis by simp
  next
    case False
    with Cons.prems a have "(p, Some d) \<in> set ps" and "distinct (map fst ps)" by auto
    with Cons.IH Cons.prems(3) have "bind_params ps ((p, d) # kw) = bind_params ps kw" by simp
    with False a show ?thesis by (simp cong: option.case_cong)
  qed
qed

lemma bind_call_default:
  assumes "distinct (map fst (params m))" and "(p, Some d) \<in> set (params m)"
    and "map_of kw p = None"
  shows "bind_call m ((p, d) # kw) = bind_call m kw"
proof -
  from assms(2) have "p \<in> set (map fst (params m))" by (simp add: rev_image_eqI)
  then have extra: "filter (\<lambda>(k, v). k \<notin> set (map fst (params m))) ((p, d) # kw) =
             filter (\<lambda>(k, v). k \<notin> set (map fst (params m))) kw"
    by simp
  from assms have bound: "bind_params (params m) ((p, d) # kw) = bind_params (params m) kw"
    by (rule bind_params_default)
  show ?thesis by (simp only: bind_call_def extra bound)
qed

section \<open>Properties of the batch and streaming loops\<close>

lemma batch_loop_success:
  "map backend rs = map Inr ws \<Longrightarrow>
   batch_loop backend rs calls audios = (calls @ rs, Inr (concat (audios @ ws)))"
proof (induction rs arbitrary: ws calls audios)
  case Nil
  then show ?case by simp
next
  case (Cons r rs)
  then obtain w ws' where "ws = w # ws'" "backend r = Inr w" "map backend rs = map Inr ws'"
    by (cases ws) auto
  with Cons.IH[of ws' "calls @ [r]" "audios @ [w]"] show ?case by simp
qed

lemma batch_loop_returns:
  "batch_loop backend rs calls audios = (cs, Inr w) \<Longrightarrow>
   cs = calls @ rs \<and> (\<exists>ws. map backend rs = map Inr ws \<and> w = concat (audios @ ws))"
proof (induction rs arbitrary: calls audios)
  case Nil
  then show ?case by auto
next
  case (Cons r rs)
  from Cons.prems obtain v where v: "backend r = Inr v"
    and rest: "batch_loop backend rs (calls @ [r]) (audios @ [v]) = (cs, Inr w)"
    by (auto split: sum.splits)
  from Cons.IH[OF rest] obtain ws where "cs = calls @ r # rs" "map backend rs = map Inr ws"
    "w = concat (audios @ v # ws)" by auto
  with v have "map backend (r # rs) = map Inr (v # ws) \<and> w = concat (audios @ (v # ws))" by simp
  with \<open>cs = calls @ r # rs\<close> show ?case by blast
qed

lemma sorted_tag_frames: "sorted_wrt tag_before (tag_frames i frames)"
proof -
  have "sorted_wrt (<) (map fst (enumerate 0 frames))" by simp
  then have "sorted_wrt (\<lambda>a b. fst a < fst b) (enumerate 0 frames)"
    by (simp only: sorted_wrt_map)
  then show ?thesis
    by (simp add: tag_frames_def sorted_wrt_map tag_before_def case_prod_beta)
qed

lemma fst_tag_frames: "x \<in> set (tag_frames i frames) \<Longrightarrow> fst x = i"
  by (auto simp: tag_frames_def)

lemma stream_loop_index: "x \<in> set (fst (stream_loop backend i rs)) \<Longrightarrow> i \<le> fst x"
proof (induction rs arbitrary: i)
  case Nil
  then show ?case by simp
next
  case (Cons r rs)
  obtain frames signal where b: "backend r = (frames, signal)" by (cases "backend r")
  show ?case
  proof (cases signal)
    case None
    obtain later s where l: "stream_loop backend (Suc i) rs = (later, s)"
      by (cases "stream_loop backend (Suc i) rs")
    with Cons.prems b None have "x \<in> set (tag_frames i frames) \<or> x \<in> set later" by simp
    then show ?thesis
    proof
      assume "x \<in> set (tag_frames i frames)"
      then show ?thesis by (simp add: fst_tag_frames)
    next
      assume "x \<in> set later"
      with Cons.IH[of "Suc i"] l show ?thesis by simp
    qed
  next
    case (Some e)
    with Cons.prems b show ?thesis by (simp add: fst_tag_frames)
  qed
qed

lemma sorted_stream_loop: "sorted_wrt tag_before (fst (stream_loop backend i rs))"
proof (induction rs arbitrary: i)
  case Nil
  then show ?case by simp
next
  case (Cons r rs)
  obtain frames signal where b: "backend r = (frames, signal)" by (cases "backend r")
  show ?case
  proof (cases signal)
    case None
    obtain later s where l: "stream_loop backend (Suc i) rs = (later, s)"
      by (cases "stream_loop backend (Suc i) rs")
    from Cons.IH[of "Suc i"] l have "sorted_wrt tag_before later" by simp
    moreover have "tag_before x y" if "x \<in> set (tag_frames i frames)" "y \<in> set later" for x y
      using fst_tag_frames[OF that(1)] stream_loop_index[of y backend "Suc i" rs] that(2) l
      by (simp add: tag_before_def)
    ultimately show ?thesis using b None l sorted_tag_frames[of i frames]
      by (simp add: sorted_wrt_append)
  next
    case (Some e)
    with b sorted_tag_frames[of i frames] show ?thesis by simp
  qed
qed

lemma stream_loop_complete:
  "map backend rs = map (\<lambda>fs. (fs, None)) fss \<Longrightarrow>
   stream_loop backend i rs =
     (concat (map (\<lambda>(k, fs). tag_frames k fs) (enumerate i fss)), None)"
proof (induction rs arbitrary: i fss)
  case Nil
  then show ?case by simp
next
  case (Cons r rs)
  then obtain fs fss' where f: "fss = fs # fss'" "backend r = (fs, None)"
    "map backend rs = map (\<lambda>fs. (fs, None)) fss'"
    by (cases fss) auto
  from Cons.IH[OF f(3), of "Suc i"] f(1,2) show ?case by simp
qed

lemma frames_of_tag_frames: "map (\<lambda>x. snd (snd x)) (tag_frames i frames) = frames"
proof -
  have "map (\<lambda>x. snd (snd x)) (tag_frames i frames) = map snd (enumerate 0 frames)"
    by (simp add: tag_frames_def case_prod_beta comp_def)
  then show ?thesis by simp
qed

lemma frames_of_tagged:
  "map (\<lambda>x. snd (snd x)) (concat (map (\<lambda>(k, fs). tag_frames k fs) (enumerate i fss))) = concat fss"
  by (induction fss arbitrary: i) (simp_all add: frames_of_tag_frames)

lemma sorted_wrt_weaken: "sorted_wrt tag_before xs \<Longrightarrow> sorted_wrt tag_not_after xs"
  by (rule sorted_wrt_mono_rel[of xs tag_before]) (auto simp: tag_before_def tag_not_after_def)

section \<open>The claims about the Segmenter\<close>

lemmas seg_eval = BaseEngine_split_text_def split_text_def sentence_units_def stop_splitter_def
  first_unit_only_def fits_window_def tokenize_fn_def char_engine_def char_encode_def
  token_count_def close_chunk_def




text \<open>
  C5: on the empty text \<^verbatim>\<open>split_text\<close> returns no chunk, whatever the window size, the
  length threshold, the tokenizing function and the splitting function.
\<close>

theorem empty_text_no_chunks:
  "BaseEngine_split_text dflt mok self [] T W sf = []"
  by (simp add: BaseEngine_split_text_def split_text_def)

text \<open>
  C6: the tokenizing function that \<^verbatim>\<open>BaseEngine.split_text\<close> hands to the Segmenter is the
  \<^verbatim>\<open>encode\<close> of the generator's tokenizer with \<^verbatim>\<open>add_special_tokens\<close>, \<^verbatim>\<open>truncation\<close> and
  \<^verbatim>\<open>padding\<close> all off, in every call; and the chunks depend on it through the number of
  tokens only: an engine whose encoder returns as many tokens for every text, with the
  three flags off, returns the same chunks.
\<close>

theorem tokenize_fn_is_plain_encode_for_counting:
  "tokenize_fn self s = encode (tokenizer (generator self)) s False False False \<and>
   BaseEngine_split_text dflt mok self txt T W sf =
     split_text dflt mok txt W
       (\<lambda>s. encode (tokenizer (generator self)) s False False False) sf T \<and>
   ((\<forall>s. length (encode (tokenizer (generator e2)) s False False False) =
         length (encode (tokenizer (generator self)) s False False False)) \<longrightarrow>
    BaseEngine_split_text dflt mok e2 txt T W sf = BaseEngine_split_text dflt mok self txt T W sf)"
proof (intro conjI impI)
  show "tokenize_fn self s = encode (tokenizer (generator self)) s False False False"
    by (simp add: tokenize_fn_def)
  have fn: "tokenize_fn self = (\<lambda>s. encode (tokenizer (generator self)) s False False False)"
    by (simp add: fun_eq_iff tokenize_fn_def)
  then show "BaseEngine_split_text dflt mok self txt T W sf =
     split_text dflt mok txt W
       (\<lambda>s. encode (tokenizer (generator self)) s False False False) sf T"
    by (simp add: BaseEngine_split_text_def)
  assume "\<forall>s. length (encode (tokenizer (generator e2)) s False False False) =
         length (encode (tokenizer (generator self)) s False False False)"
  then have "token_count (tokenize_fn e2) s = token_count (tokenize_fn self) s" for s
    by (simp add: token_count_def tokenize_fn_def)
  then have "split_text dflt mok txt W (tokenize_fn e2) sf T =
             split_text dflt mok txt W (tokenize_fn self) sf T"
    by (rule split_text_counts_only)
  then show "BaseEngine_split_text dflt mok e2 txt T W sf = BaseEngine_split_text dflt mok self txt T W sf"
    by (simp add: BaseEngine_split_text_def)
qed

theorem tokenize_fn_is_plain_encode_for_counting_witness:
  "(\<forall>s. length (encode (tokenizer (generator zero_engine)) s False False False) =
        length (encode (tokenizer (generator char_engine)) s False False False)) \<and>
   encode (tokenizer (generator zero_engine)) ''a.'' False False False \<noteq>
     encode (tokenizer (generator char_engine)) ''a.'' False False False \<and>
   tokenize_fn char_engine ''a.'' = [97, 46] \<and>
   BaseEngine_split_text stop_splitter (fits_window 4) zero_engine ''a.b.cdefg.h.'' 3 4 (Some stop_splitter) =
   BaseEngine_split_text stop_splitter (fits_window 4) char_engine ''a.b.cdefg.h.'' 3 4 (Some stop_splitter)"
proof -
  have same: "\<forall>s. length (encode (tokenizer (generator zero_engine)) s False False False) =
        length (encode (tokenizer (generator char_engine)) s False False False)"
    by (simp add: char_engine_def zero_engine_def char_encode_def zero_encode_def)
  have differ: "encode (tokenizer (generator zero_engine)) ''a.'' False False False \<noteq>
     encode (tokenizer (generator char_engine)) ''a.'' False False False"
    by (simp add: char_engine_def zero_engine_def char_encode_def zero_encode_def)
  have ids: "tokenize_fn char_engine ''a.'' = [97, 46]"
    by (simp add: tokenize_fn_def char_engine_def char_encode_def)
  from tokenize_fn_is_plain_encode_for_counting[of char_engine "''a.''" stop_splitter
      "fits_window 4" "''a.b.cdefg.h.''" 3 4 "Some stop_splitter" zero_engine] same differ ids
  show ?thesis by simp
qed

section \<open>The claims about the entry points\<close>

text \<open>
  C7, as stated, fails: four generation operation families and eight entry points.
  \<^verbatim>\<open>BaseEngine\<close> declares six entry points, in three families.
\<close>

theorem six_entry_points_not_eight:
  "length entry_points = 6 \<and> length (remdups (map family entry_points)) = 3 \<and>
   \<not> (length (remdups (map family entry_points)) = 4 \<and> length entry_points = 8)"
  by (simp add: families) (simp add: entry_points_eq)

text \<open>
  C7, amended: the caller-facing surface of the engine consists of exactly three
  generation operation families (\<^verbatim>\<open>speak\<close>, \<^verbatim>\<open>clone_voice\<close>, \<^verbatim>\<open>generate_voice\<close>), each
  offered in one batch and one streaming form, six entry points in all, and each entry
  point accepts the sampling parameters \<^verbatim>\<open>temperature\<close>, \<^verbatim>\<open>top_k\<close>, \<^verbatim>\<open>top_p\<close>,
  \<^verbatim>\<open>max_tokens\<close> and the chunking parameters \<^verbatim>\<open>length_threshold\<close>, \<^verbatim>\<open>window_size\<close>,
  \<^verbatim>\<open>split_fn\<close>.
\<close>

theorem three_families_in_two_forms:
  "map method_name entry_points =
     [''speak_async'', ''speak_stream_async'', ''clone_voice_async'',
      ''clone_voice_stream_async'', ''generate_voice_async'',
      ''generate_voice_stream_async''] \<and>
   remdups (map family entry_points) = [''speak'', ''clone_voice'', ''generate_voice''] \<and>
   list_all (\<lambda>f. map form_of (filter (\<lambda>m. family m = f) entry_points) = [Batch, Streaming])
     (remdups (map family entry_points)) \<and>
   list_all (\<lambda>m. list_all (\<lambda>p. p \<in> set (map fst (params m)))
        [''temperature'', ''top_k'', ''top_p'', ''max_tokens'',
         ''length_threshold'', ''window_size'', ''split_fn''])
     entry_points"
proof (intro conjI)
  show "map method_name entry_points =
     [''speak_async'', ''speak_stream_async'', ''clone_voice_async'',
      ''clone_voice_stream_async'', ''generate_voice_async'',
      ''generate_voice_stream_async'']"
    by (simp add: entry_points_eq decl_defs)
  show fam: "remdups (map family entry_points) = [''speak'', ''clone_voice'', ''generate_voice'']"
    by (simp add: families)
  show "list_all (\<lambda>f. map form_of (filter (\<lambda>m. family m = f) entry_points) = [Batch, Streaming])
     (remdups (map family entry_points))"
    unfolding fam by (simp add: entry_points_eq family_values form_values)
  show "list_all (\<lambda>m. list_all (\<lambda>p. p \<in> set (map fst (params m)))
        [''temperature'', ''top_k'', ''top_p'', ''max_tokens'',
         ''length_threshold'', ''window_size'', ''split_fn''])
     entry_points"
    by (simp add: entry_points_eq decl_defs)
qed

text \<open>
  C8: when the backend generates a waveform for the request of every chunk, a batch
  entry point hands the requests of the chunks to the backend in the order of the chunks,
  every one of them before it returns, and returns the per-chunk waveforms concatenated
  in that order; the length of the result is the sum of the lengths of the per-chunk
  waveforms. And it returns a waveform in no other run: then every chunk was generated
  and the waveform is the concatenation. The three batch entry points do so, each with
  its voice context.
\<close>

theorem batch_concatenates_chunk_waveforms:
  "(map backend (chunk_requests voice temperature top_k top_p max_tokens
       (BaseEngine_split_text dflt mok self txt T W sf)) = map Inr ws \<longrightarrow>
    generate_batch backend dflt mok self voice txt temperature top_k top_p max_tokens T W sf =
      (chunk_requests voice temperature top_k top_p max_tokens
         (BaseEngine_split_text dflt mok self txt T W sf),
       Inr (concat ws)) \<and>
    length (concat ws) = sum_list (map length ws)) \<and>
   (generate_batch backend dflt mok self voice txt temperature top_k top_p max_tokens T W sf =
      (calls, Inr w) \<longrightarrow>
    calls = chunk_requests voice temperature top_k top_p max_tokens
       (BaseEngine_split_text dflt mok self txt T W sf) \<and>
    (\<exists>ws'. map backend (chunk_requests voice temperature top_k top_p max_tokens
       (BaseEngine_split_text dflt mok self txt T W sf)) = map Inr ws' \<and> w = concat ws')) \<and>
   speak_async backend dflt mok self name txt temperature top_k top_p max_tokens T W sf =
     generate_batch backend dflt mok self (Named_voice name) txt temperature top_k top_p
       max_tokens T W sf \<and>
   clone_voice_async backend dflt mok self txt reference_audio reference_text temperature
       top_k top_p max_tokens T W sf =
     generate_batch backend dflt mok self (Cloned_voice reference_audio reference_text) txt
       temperature top_k top_p max_tokens T W sf \<and>
   generate_voice_async backend dflt mok self txt gender pitch speed temperature top_k top_p
       max_tokens T W sf =
     generate_batch backend dflt mok self (Described_voice gender pitch speed) txt
       temperature top_k top_p max_tokens T W sf"
proof -
  let ?out = "generate_batch backend dflt mok self voice txt temperature top_k top_p max_tokens
     T W sf"
  let ?reqs = "chunk_requests voice temperature top_k top_p max_tokens
     (BaseEngine_split_text dflt mok self txt T W sf)"
  have all: "?out = (?reqs, Inr (concat ws)) \<and> length (concat ws) = sum_list (map length ws)"
    if ok: "map backend ?reqs = map Inr ws"
    using batch_loop_success[OF ok, of "[]" "[]"]
    by (simp add: generate_batch_def length_concat)
  have only: "calls = ?reqs \<and> (\<exists>ws'. map backend ?reqs = map Inr ws' \<and> w = concat ws')"
    if ret: "?out = (calls, Inr w)"
    using batch_loop_returns[of backend ?reqs "[]" "[]" calls w] ret
    by (simp add: generate_batch_def)
  have entry:
    "speak_async backend dflt mok self name txt temperature top_k top_p max_tokens T W sf =
       generate_batch backend dflt mok self (Named_voice name) txt temperature top_k top_p
         max_tokens T W sf \<and>
     clone_voice_async backend dflt mok self txt reference_audio reference_text temperature
         top_k top_p max_tokens T W sf =
       generate_batch backend dflt mok self (Cloned_voice reference_audio reference_text) txt
         temperature top_k top_p max_tokens T W sf \<and>
     generate_voice_async backend dflt mok self txt gender pitch speed temperature top_k top_p
         max_tokens T W sf =
       generate_batch backend dflt mok self (Described_voice gender pitch speed) txt
         temperature top_k top_p max_tokens T W sf"
    by (simp add: speak_async_def clone_voice_async_def generate_voice_async_def)
  from all only entry show ?thesis by blast
qed

theorem batch_concatenates_chunk_waveforms_witness:
  "BaseEngine_split_text stop_splitter (fits_window 4) char_engine ''a.b.cdefg.h.'' 3 4 (Some stop_splitter) =
     [''a.b.'', ''cdefg.'', ''h.''] \<and>
   map sample_backend (chunk_requests (Named_voice ''amy'') (PyFloat 9 1) 50 (PyFloat 95 2) 4096
       (BaseEngine_split_text stop_splitter (fits_window 4) char_engine ''a.b.cdefg.h.'' 3 4 (Some stop_splitter))) =
     map Inr [[97, 46, 98, 46], [99, 100, 101, 102, 103, 46], [104, 46]] \<and>
   snd (speak_async sample_backend stop_splitter (fits_window 4) char_engine ''amy'' ''a.b.cdefg.h.''
          (PyFloat 9 1) 50 (PyFloat 95 2) 4096 3 4 (Some stop_splitter)) =
     Inr [97, 46, 98, 46, 99, 100, 101, 102, 103, 46, 104, 46] \<and>
   map req_text (fst (speak_async sample_backend stop_splitter (fits_window 4) char_engine ''amy''
          ''a.b.cdefg.h.'' (PyFloat 9 1) 50 (PyFloat 95 2) 4096 3 4 (Some stop_splitter))) =
     [''a.b.'', ''cdefg.'', ''h.'']"
proof -
  have chunks: "BaseEngine_split_text stop_splitter (fits_window 4) char_engine ''a.b.cdefg.h.'' 3 4 (Some stop_splitter) =
     [''a.b.'', ''cdefg.'', ''h.'']"
    by (simp add: seg_eval)
  have gen: "map sample_backend
      (chunk_requests (Named_voice ''amy'') (PyFloat 9 1) 50 (PyFloat 95 2) 4096
         (BaseEngine_split_text stop_splitter (fits_window 4) char_engine ''a.b.cdefg.h.'' 3 4 (Some stop_splitter))) =
     map Inr [[97, 46, 98, 46], [99, 100, 101, 102, 103, 46], [104, 46]]"
    by (simp add: chunks chunk_requests_def sample_backend_def)
  note inst = batch_concatenates_chunk_waveforms[of sample_backend "Named_voice ''amy''"
      "PyFloat 9 1" 50 "PyFloat 95 2" 4096 stop_splitter "fits_window 4" char_engine
      "''a.b.cdefg.h.''" 3 4
      "Some stop_splitter" "[[97, 46, 98, 46], [99, 100, 101, 102, 103, 46], [104, 46]]"
      "[]" "[]" "''amy''"]
  from inst gen
  have out: "generate_batch sample_backend stop_splitter (fits_window 4) char_engine (Named_voice ''amy'')
       ''a.b.cdefg.h.'' (PyFloat 9 1) 50 (PyFloat 95 2) 4096 3 4 (Some stop_splitter) =
     (chunk_requests (Named_voice ''amy'') (PyFloat 9 1) 50 (PyFloat 95 2) 4096
        (BaseEngine_split_text stop_splitter (fits_window 4) char_engine ''a.b.cdefg.h.'' 3 4
           (Some stop_splitter)),
      Inr (concat [[97, 46, 98, 46], [99, 100, 101, 102, 103, 46], [104, 46]]))"
    by blast
  from inst
  have "speak_async sample_backend stop_splitter (fits_window 4) char_engine ''amy'' ''a.b.cdefg.h.''
       (PyFloat 9 1) 50 (PyFloat 95 2) 4096 3 4 (Some stop_splitter) =
     generate_batch sample_backend stop_splitter (fits_window 4) char_engine (Named_voice ''amy'')
       ''a.b.cdefg.h.'' (PyFloat 9 1) 50 (PyFloat 95 2) 4096 3 4 (Some stop_splitter)"
    by blast
  with out gen chunks show ?thesis by (simp add: chunk_requests_def)
qed

text \<open>
  C9: a streaming entry point emits its frames in the order of their tags (chunk index,
  frame index), strictly increasing and so non-decreasing, also when the backend fails on
  a chunk; and when the backend ends the frames of every chunk without an error, the frames
  emitted are the per-chunk frame sequences one after the other in the order of the
  chunks, each in generation order, and the stream ends normally. So no frame of chunk
  N+1 is emitted before all frames of chunk N are. The three streaming entry points do so,
  each with its voice context.
\<close>

theorem stream_emits_in_chunk_order:
  "sorted_wrt tag_before (fst (generate_stream backend dflt mok self voice txt temperature
       top_k top_p max_tokens T W sf)) \<and>
   sorted_wrt tag_not_after (fst (generate_stream backend dflt mok self voice txt temperature
       top_k top_p max_tokens T W sf)) \<and>
   (map backend (chunk_requests voice temperature top_k top_p max_tokens
       (BaseEngine_split_text dflt mok self txt T W sf)) = map (\<lambda>fs. (fs, None)) fss \<longrightarrow>
    generate_stream backend dflt mok self voice txt temperature top_k top_p max_tokens T W sf =
      (concat (map (\<lambda>(k, fs). tag_frames k fs) (enumerate 0 fss)), None) \<and>
    map (\<lambda>x. snd (snd x)) (fst (generate_stream backend dflt mok self voice txt temperature
       top_k top_p max_tokens T W sf)) = concat fss) \<and>
   speak_stream_async backend dflt mok self name txt temperature top_k top_p max_tokens T W sf =
     generate_stream backend dflt mok self (Named_voice name) txt temperature top_k top_p
       max_tokens T W sf \<and>
   clone_voice_stream_async backend dflt mok self txt reference_audio reference_text
       temperature top_k top_p max_tokens T W sf =
     generate_stream backend dflt mok self (Cloned_voice reference_audio reference_text) txt
       temperature top_k top_p max_tokens T W sf \<and>
   generate_voice_stream_async backend dflt mok self txt gender pitch speed temperature
       top_k top_p max_tokens T W sf =
     generate_stream backend dflt mok self (Described_voice gender pitch speed) txt
       temperature top_k top_p max_tokens T W sf"
proof -
  let ?out = "generate_stream backend dflt mok self voice txt temperature top_k top_p max_tokens
     T W sf"
  let ?reqs = "chunk_requests voice temperature top_k top_p max_tokens
     (BaseEngine_split_text dflt mok self txt T W sf)"
  have strict: "sorted_wrt tag_before (fst ?out)"
    by (simp add: generate_stream_def sorted_stream_loop)
  then have weak: "sorted_wrt tag_not_after (fst ?out)"
    by (rule sorted_wrt_weaken)
  have complete: "?out = (concat (map (\<lambda>(k, fs). tag_frames k fs) (enumerate 0 fss)), None) \<and>
      map (\<lambda>x. snd (snd x)) (fst ?out) = concat fss"
    if ok: "map backend ?reqs = map (\<lambda>fs. (fs, None)) fss"
  proof -
    from stream_loop_complete[OF ok, of 0]
    have "?out = (concat (map (\<lambda>(k, fs). tag_frames k fs) (enumerate 0 fss)), None)"
      by (simp add: generate_stream_def)
    then show ?thesis by (simp add: frames_of_tagged)
  qed
  have entry:
    "speak_stream_async backend dflt mok self name txt temperature top_k top_p max_tokens T W sf =
       generate_stream backend dflt mok self (Named_voice name) txt temperature top_k top_p
         max_tokens T W sf \<and>
     clone_voice_stream_async backend dflt mok self txt reference_audio reference_text
         temperature top_k top_p max_tokens T W sf =
       generate_stream backend dflt mok self (Cloned_voice reference_audio reference_text) txt
         temperature top_k top_p max_tokens T W sf \<and>
     generate_voice_stream_async backend dflt mok self txt gender pitch speed temperature
         top_k top_p max_tokens T W sf =
       generate_stream backend dflt mok self (Described_voice gender pitch speed) txt
         temperature top_k top_p max_tokens T W sf"
    by (simp add: speak_stream_async_def clone_voice_stream_async_def
        generate_voice_stream_async_def)
  from strict weak complete entry show ?thesis by blast
qed

theorem stream_emits_in_chunk_order_witness:
  "map frame_backend (chunk_requests (Named_voice ''amy'') (PyFloat 9 1) 50 (PyFloat 95 2) 4096
       (BaseEngine_split_text stop_splitter (fits_window 2) char_engine ''a.bc.d.'' 0 2 (Some stop_splitter))) =
     map (\<lambda>fs. (fs, None)) [[[97], [46]], [[98], [99], [46]], [[100], [46]]] \<and>
   speak_stream_async frame_backend stop_splitter (fits_window 2) char_engine ''amy'' ''a.bc.d.''
       (PyFloat 9 1) 50 (PyFloat 95 2) 4096 0 2 (Some stop_splitter) =
     ([(0, 0, [97]), (0, 1, [46]), (1, 0, [98]), (1, 1, [99]), (1, 2, [46]),
       (2, 0, [100]), (2, 1, [46])], None)"
proof -
  have chunks: "BaseEngine_split_text stop_splitter (fits_window 2) char_engine ''a.bc.d.'' 0 2 (Some stop_splitter) =
     [''a.'', ''bc.'', ''d.'']"
    by (simp add: seg_eval)
  have gen: "map frame_backend
      (chunk_requests (Named_voice ''amy'') (PyFloat 9 1) 50 (PyFloat 95 2) 4096
         (BaseEngine_split_text stop_splitter (fits_window 2) char_engine ''a.bc.d.'' 0 2 (Some stop_splitter))) =
     map (\<lambda>fs. (fs, None)) [[[97], [46]], [[98], [99], [46]], [[100], [46]]]"
    by (simp add: chunks chunk_requests_def frame_backend_def)
  from stream_emits_in_chunk_order[of frame_backend stop_splitter "fits_window 2" char_engine
      "Named_voice ''amy''" "''a.bc.d.''" "PyFloat 9 1" 50 "PyFloat 95 2" 4096 0 2 "Some stop_splitter"
      "[[[97], [46]], [[98], [99], [46]], [[100], [46]]]" "''amy''"] gen
  show ?thesis by (simp add: tag_frames_def enumerate_eq_zip)
qed

text \<open>
  C10: every generation entry point declared on \<^verbatim>\<open>BaseEngine\<close> gives each shared
  parameter the same default (\<^verbatim>\<open>temperature = 0.9\<close>, \<^verbatim>\<open>top_k = 50\<close>, \<^verbatim>\<open>top_p = 0.95\<close>,
  \<^verbatim>\<open>max_tokens = 4096\<close>, \<^verbatim>\<open>length_threshold = 50\<close>, \<^verbatim>\<open>window_size = 50\<close>,
  \<^verbatim>\<open>split_fn = None\<close>), and a call that omits one of them is bound as the call that passes
  this value for it.
\<close>

theorem entry_points_share_defaults:
  assumes "m \<in> set entry_points"
    and "(p, d) \<in> set [(''temperature'', PyFloat 9 1), (''top_k'', PyInt 50),
           (''top_p'', PyFloat 95 2), (''max_tokens'', PyInt 4096),
           (''length_threshold'', PyInt 50), (''window_size'', PyInt 50),
           (''split_fn'', PyNone)]"
    and "map_of kw p = None"
  shows "map_of (params m) p = Some (Some d) \<and> bind_call m ((p, d) # kw) = bind_call m kw"
proof -
  from assms(1) have dist: "distinct (map fst (params m))"
    by (auto simp: entry_points_eq decl_defs)
  from assms(1,2) have dflt: "map_of (params m) p = Some (Some d)"
    by (auto simp: entry_points_eq decl_defs)
  then have "(p, Some d) \<in> set (params m)" by (rule map_of_SomeD)
  from bind_call_default[of m p d kw] dist this assms(3) dflt show ?thesis by simp
qed

theorem entry_points_share_defaults_witness:
  "generate_voice_stream_async_decl \<in> set entry_points \<and>
   map_of [(''text'', PyStr ''Hello.'')] ''top_p'' = None \<and>
   map_of (params generate_voice_stream_async_decl) ''top_p'' = Some (Some (PyFloat 95 2)) \<and>
   bind_call generate_voice_stream_async_decl
       [(''top_p'', PyFloat 95 2), (''text'', PyStr ''Hello.'')] =
     bind_call generate_voice_stream_async_decl [(''text'', PyStr ''Hello.'')] \<and>
   bind_call generate_voice_stream_async_decl [(''text'', PyStr ''Hello.'')] =
     Inr ([(''text'', PyStr ''Hello.''), (''gender'', PyStr ''female''),
       (''pitch'', PyStr ''moderate''), (''speed'', PyStr ''moderate''),
       (''temperature'', PyFloat 9 1), (''top_k'', PyInt 50),
       (''top_p'', PyFloat 95 2), (''max_tokens'', PyInt 4096),
       (''length_threshold'', PyInt 50), (''window_size'', PyInt 50),
       (''split_fn'', PyNone)], [])"
proof -
  have ep: "generate_voice_stream_async_decl \<in> set entry_points"
    by (simp add: entry_points_eq)
  have omitted: "map_of [(''text'', PyStr ''Hello.'')] ''top_p'' = None" by simp
  have val: "bind_call generate_voice_stream_async_decl [(''text'', PyStr ''Hello.'')] =
     Inr ([(''text'', PyStr ''Hello.''), (''gender'', PyStr ''female''),
       (''pitch'', PyStr ''moderate''), (''speed'', PyStr ''moderate''),
       (''temperature'', PyFloat 9 1), (''top_k'', PyInt 50),
       (''top_p'', PyFloat 95 2), (''max_tokens'', PyInt 4096),
       (''length_threshold'', PyInt 50), (''window_size'', PyInt 50),
       (''split_fn'', PyNone)], [])"
    by (simp add: bind_call_def generate_voice_stream_async_decl_def)
  from entry_points_share_defaults[OF ep _ omitted, of "PyFloat 95 2"] ep omitted val
  show ?thesis by simp
qed

end
